theory Spec2Isabelle
  imports Main "HOL-Library.Word"
begin

unbundle bit_operations_syntax

section \<open>Key codes (curses.h, lines 21-27)\<close>

definition KEY_UP :: int where "KEY_UP = 72"
definition KEY_DOWN :: int where "KEY_DOWN = 80"
definition KEY_LEFT :: int where "KEY_LEFT = 75"
definition KEY_RIGHT :: int where "KEY_RIGHT = 77"
definition KEY_ENTER :: int where "KEY_ENTER = 13"
definition KEY_BACKSPACE :: int where "KEY_BACKSPACE = 8"
definition KEY_ESC :: int where "KEY_ESC = 27"

text \<open>The printable ASCII range 32..126 the specification speaks of.\<close>

definition printable :: "int \<Rightarrow> bool" where
  "printable k = (32 \<le> k \<and> k \<le> 126)"

text \<open>
  A \<^verbatim>\<open>char\<close> converted to \<^verbatim>\<open>int\<close>. The source is compiled with a signed
  \<^verbatim>\<open>char\<close> (x86 Linux, MSVC), so bytes from 128 on become negative; on the
  printable range the conversion is the byte's value whatever the signedness.
\<close>

definition char_to_int :: "char \<Rightarrow> int" where
  "char_to_int c = (if (of_char c :: nat) < 128 then int (of_char c) else int (of_char c) - 256)"

section \<open>The data model\<close>

subsection \<open>class WINDOW (lines 29-41)\<close>

record WINDOW =
  height :: int
  width :: int
  start_y :: int
  start_x :: int
  buffer :: "char list list"

text \<open>
  What the C++ library throws or leaves undefined, as values: a vector asked for a
  negative (hence huge) size throws \<^verbatim>\<open>std::length_error\<close>; \<^verbatim>\<open>operator[]\<close> past the end
  of a vector is undefined behaviour.
\<close>

datatype fault = length_error | subscript_out_of_range

text \<open>
  The constructor: \<^verbatim>\<open>buffer.resize(height, std::vector<char>(width, ' '))\<close>.
\<close>

definition WINDOW_new :: "int \<Rightarrow> int \<Rightarrow> int \<Rightarrow> int \<Rightarrow> fault + WINDOW" where
  "WINDOW_new h w y x =
     (if w < 0 \<or> h < 0 then Inl length_error
      else Inr \<lparr>height = h, width = w, start_y = y, start_x = x,
                buffer = replicate (nat h) (replicate (nat w) (CHR '' ''))\<rparr>)"

text \<open>
  The shape every constructed WINDOW has: \<open>height\<close> rows of \<open>width\<close> cells each.
  The fields are public in the source, so the shape is an invariant of the
  controller's own operations, stated here and proved below.
\<close>

definition rows_ok :: "nat \<Rightarrow> char list list \<Rightarrow> bool" where
  "rows_ok n b = list_all (\<lambda>row. length row = n) b"

definition wf_window :: "WINDOW \<Rightarrow> bool" where
  "wf_window w =
     (0 \<le> height w \<and> 0 \<le> width w \<and> length (buffer w) = nat (height w) \<and>
      rows_ok (nat (width w)) (buffer w))"

subsection \<open>The platform: constants of the system headers\<close>

text \<open>
  The source has two branches, chosen by \<^verbatim>\<open>#ifdef _WIN32\<close>. The constants each
  branch takes from the system headers (\<^verbatim>\<open>termios.h\<close>, \<^verbatim>\<open>windows.h\<close>) are not
  part of the repository: the platform carries them as parameters.
\<close>

record posix_consts =
  ICANON :: "32 word"
  ECHO :: "32 word"
  VMIN :: nat
  VTIME :: nat

record win_consts =
  ENABLE_PROCESSED_INPUT :: "32 word"
  ENABLE_LINE_INPUT :: "32 word"
  ENABLE_ECHO_INPUT :: "32 word"
  ENABLE_MOUSE_INPUT :: "32 word"
  KEY_EVENT :: "16 word"
  VK_UP :: "16 word"
  VK_DOWN :: "16 word"
  VK_LEFT :: "16 word"
  VK_RIGHT :: "16 word"
  VK_RETURN :: "16 word"
  VK_BACK :: "16 word"
  VK_ESCAPE :: "16 word"

datatype platform = Win32 win_consts | Posix posix_consts

text \<open>The values of the Linux and of the Windows headers, for concrete runs.\<close>

definition linux_h :: posix_consts where
  "linux_h = \<lparr>ICANON = 2, ECHO = 8, VMIN = 6, VTIME = 5\<rparr>"

definition windows_h :: win_consts where
  "windows_h = \<lparr>ENABLE_PROCESSED_INPUT = 1, ENABLE_LINE_INPUT = 2,
     ENABLE_ECHO_INPUT = 4, ENABLE_MOUSE_INPUT = 16, KEY_EVENT = 1,
     VK_UP = 0x26, VK_DOWN = 0x28, VK_LEFT = 0x25, VK_RIGHT = 0x27,
     VK_RETURN = 0x0D, VK_BACK = 0x08, VK_ESCAPE = 0x1B\<rparr>"

definition linux :: platform where
  "linux = Posix linux_h"

definition windows :: platform where
  "windows = Win32 windows_h"

subsection \<open>The operating system's side\<close>

record termios =
  c_iflag :: "32 word"
  c_oflag :: "32 word"
  c_cflag :: "32 word"
  c_lflag :: "32 word"
  c_cc :: "8 word list"

record winsize =
  ws_row :: "16 word"
  ws_col :: "16 word"

record SMALL_RECT =
  Left :: "16 word"
  Top :: "16 word"
  Right :: "16 word"
  Bottom :: "16 word"

record INPUT_RECORD =
  EventType :: "16 word"
  bKeyDown :: bool
  wVirtualKeyCode :: "16 word"
  AsciiChar :: char

datatype out = SysClear | Put char | Endl

text \<open>
  What the controller reads and writes outside itself.
  \<^item> \<open>stdin_attr\<close>: the attributes of standard input (\<^verbatim>\<open>tcgetattr\<close>, \<^verbatim>\<open>tcsetattr\<close>);
  \<^item> \<open>console_mode\<close>, \<open>console_cursor\<close>: the console's input mode and the
    \<^verbatim>\<open>bVisible\<close> of its cursor (Windows);
  \<^item> \<open>stdin_bytes\<close>: the bytes a \<^verbatim>\<open>read\<close> of standard input finds, oldest first;
  \<^item> \<open>console_input\<close>: the console's input events, oldest first;
  \<^item> \<open>tiocgwinsz\<close>, \<open>srWindow\<close>: what the size query leaves in the structure the
    source reads afterwards. The source never looks at the status the query
    returns: a query that failed is known to it only by the values it reads;
  \<^item> \<open>stdout\<close>: what was written to the display, oldest first
    (\<^verbatim>\<open>system("clear")\<close> or \<^verbatim>\<open>system("cls")\<close> is \<open>SysClear\<close>).
\<close>

record os =
  stdin_attr :: termios
  console_mode :: "32 word"
  console_cursor :: bool
  stdin_bytes :: "char list"
  console_input :: "INPUT_RECORD list"
  tiocgwinsz :: winsize
  srWindow :: SMALL_RECT
  stdout :: "out list"

subsection \<open>class TerminalUI (lines 43-60)\<close>

text \<open>
  \<open>current_window\<close> is the owned \<^verbatim>\<open>WINDOW*\<close>, \<open>None\<close> for the null pointer. Of
  \<open>old_console_mode\<close> and \<open>old_termios\<close> the source declares the one of its
  platform; the other is never touched here. \<^verbatim>\<open>console_handle\<close> only ever
  holds the handle of standard input and is left out.
\<close>

record TerminalUI =
  current_window :: "WINDOW option"
  is_initialized :: bool
  echo_mode :: bool
  nodelay_mode :: bool
  cursor_visible :: bool
  old_console_mode :: "32 word"
  old_termios :: termios

record world =
  ui :: TerminalUI
  sys :: os

section \<open>The operations\<close>

subsection \<open>setup_terminal and restore_terminal (lines 63-93)\<close>

text \<open>
  Standard input is taken to be a terminal, so that reading and setting its
  configuration succeed (the source does not check either call).

  Lines 79-81, and again lines 261-263: canonical mode and echo off, a read
  returns at once with what there is.
\<close>

definition raw_termios :: "posix_consts \<Rightarrow> termios \<Rightarrow> termios" where
  "raw_termios c t =
     t\<lparr>c_lflag := c_lflag t AND NOT (ICANON c OR ECHO c),
       c_cc := (c_cc t)[VMIN c := 0, VTIME c := 0]\<rparr>"

text \<open>Lines 69-71: the console mode the Windows branch sets.\<close>

definition raw_console_mode :: "win_consts \<Rightarrow> 32 word \<Rightarrow> 32 word" where
  "raw_console_mode c old =
     (old AND NOT (ENABLE_LINE_INPUT c OR ENABLE_ECHO_INPUT c OR ENABLE_PROCESSED_INPUT c))
       OR ENABLE_MOUSE_INPUT c"

definition setup_terminal :: "platform \<Rightarrow> world \<Rightarrow> world" where
  "setup_terminal p s =
     (case p of
        Win32 c \<Rightarrow>
          (let old = console_mode (sys s)
           in s\<lparr>ui := (ui s)\<lparr>old_console_mode := old\<rparr>,
                sys := (sys s)\<lparr>console_mode := raw_console_mode c old\<rparr>\<rparr>)
      | Posix c \<Rightarrow>
          (let old = stdin_attr (sys s)
           in s\<lparr>ui := (ui s)\<lparr>old_termios := old\<rparr>,
                sys := (sys s)\<lparr>stdin_attr := raw_termios c old\<rparr>\<rparr>))"

definition restore_terminal :: "platform \<Rightarrow> world \<Rightarrow> world" where
  "restore_terminal p s =
     (case p of
        Win32 c \<Rightarrow> s\<lparr>sys := (sys s)\<lparr>console_mode := old_console_mode (ui s)\<rparr>\<rparr>
      | Posix c \<Rightarrow> s\<lparr>sys := (sys s)\<lparr>stdin_attr := old_termios (ui s)\<rparr>\<rparr>)"

text \<open>
  The terminal configuration of the platform, live and saved, as one value to
  compare: the console mode on Windows, the attributes of standard input
  otherwise.
\<close>

datatype config = ConsoleMode "32 word" | Attributes termios

definition live_config :: "platform \<Rightarrow> world \<Rightarrow> config" where
  "live_config p s =
     (case p of Win32 c \<Rightarrow> ConsoleMode (console_mode (sys s))
              | Posix c \<Rightarrow> Attributes (stdin_attr (sys s)))"

definition saved_config :: "platform \<Rightarrow> world \<Rightarrow> config" where
  "saved_config p s =
     (case p of Win32 c \<Rightarrow> ConsoleMode (old_console_mode (ui s))
              | Posix c \<Rightarrow> Attributes (old_termios (ui s)))"

subsection \<open>windows_getch (lines 97-128)\<close>

text \<open>
  The loop reads one event after the other until a key-down event gives a code.
  \<open>None\<close>: the events so far gave none, and the loop waits in
  \<^verbatim>\<open>ReadConsoleInput\<close>. Otherwise the code and the events left in the queue.
\<close>

fun windows_getch :: "win_consts \<Rightarrow> INPUT_RECORD list \<Rightarrow> (int \<times> INPUT_RECORD list) option" where
  "windows_getch c [] = None"
| "windows_getch c (input_record # rest) =
     (if EventType input_record = KEY_EVENT c \<and> bKeyDown input_record then
        (let virtual_key_code = wVirtualKeyCode input_record;
             ascii_char = AsciiChar input_record
         in if virtual_key_code = VK_UP c then Some (KEY_UP, rest)
            else if virtual_key_code = VK_DOWN c then Some (KEY_DOWN, rest)
            else if virtual_key_code = VK_LEFT c then Some (KEY_LEFT, rest)
            else if virtual_key_code = VK_RIGHT c then Some (KEY_RIGHT, rest)
            else if virtual_key_code = VK_RETURN c then Some (KEY_ENTER, rest)
            else if virtual_key_code = VK_BACK c then Some (KEY_BACKSPACE, rest)
            else if virtual_key_code = VK_ESCAPE c then Some (KEY_ESC, rest)
            else if ascii_char \<noteq> CHR 0x00 then Some (char_to_int ascii_char, rest)
            else windows_getch c rest)
      else windows_getch c rest)"

subsection \<open>detect_screen_size (lines 178-194)\<close>

text \<open>
  The platform block of the function (lines 179-189): the height and the width
  as read from the structure the query filled. \<^verbatim>\<open>ws_row\<close> and \<^verbatim>\<open>ws_col\<close> are
  unsigned 16-bit, the corners of \<^verbatim>\<open>srWindow\<close> signed 16-bit; the arithmetic
  is done in \<^verbatim>\<open>int\<close>, where it cannot overflow.
\<close>

definition queried_size :: "platform \<Rightarrow> os \<Rightarrow> int \<times> int" where
  "queried_size p e =
     (case p of
        Win32 c \<Rightarrow>
          (let r = srWindow e
           in (sint (Bottom r) - sint (Top r) + 1, sint (Right r) - sint (Left r) + 1))
      | Posix c \<Rightarrow> (uint (ws_row (tiocgwinsz e)), uint (ws_col (tiocgwinsz e))))"

text \<open>The result is the pair (height, width), the order of the reference parameters.\<close>

definition detect_screen_size :: "platform \<Rightarrow> os \<Rightarrow> int \<times> int" where
  "detect_screen_size p e =
     (let (height0, width0) = queried_size p e;
          width1 = (if width0 \<le> 0 then 80 else width0);
          height1 = (if height0 \<le> 0 then 24 else height0)
      in (height1, width1))"

subsection \<open>initscr and endwin (lines 133-175)\<close>

definition initscr :: "platform \<Rightarrow> world \<Rightarrow> fault + world" where
  "initscr p s =
     (let s1 = s\<lparr>ui := (ui s)\<lparr>is_initialized := True, echo_mode := True,
                               nodelay_mode := False, cursor_visible := True\<rparr>\<rparr>;
          (h, w) = detect_screen_size p (sys s1)
      in case WINDOW_new h w 0 0 of
           Inl e \<Rightarrow> Inl e
         | Inr win \<Rightarrow> Inr (setup_terminal p (s1\<lparr>ui := (ui s1)\<lparr>current_window := Some win\<rparr>\<rparr>)))"

definition endwin :: "platform \<Rightarrow> world \<Rightarrow> world" where
  "endwin p s =
     (if \<not> is_initialized (ui s) then s
      else
        let s1 = restore_terminal p s;
            s2 = s1\<lparr>sys := (sys s1)\<lparr>stdout := stdout (sys s1) @ [SysClear]\<rparr>\<rparr>;
            s3 = (case current_window (ui s2) of
                    Some win \<Rightarrow> s2\<lparr>ui := (ui s2)\<lparr>current_window := None\<rparr>\<rparr>
                  | None \<Rightarrow> s2)
        in s3\<lparr>ui := (ui s3)\<lparr>is_initialized := False\<rparr>\<rparr>)"

subsection \<open>The mode setters (lines 197-230)\<close>

definition noecho :: "world \<Rightarrow> world" where
  "noecho s = s\<lparr>ui := (ui s)\<lparr>echo_mode := False\<rparr>\<rparr>"

definition keypad :: "bool \<Rightarrow> world \<Rightarrow> world" where
  "keypad enable s = s"

definition nodelay :: "bool \<Rightarrow> world \<Rightarrow> world" where
  "nodelay enable s = s\<lparr>ui := (ui s)\<lparr>nodelay_mode := enable\<rparr>\<rparr>"

definition cbreak :: "platform \<Rightarrow> world \<Rightarrow> world" where
  "cbreak p s = setup_terminal p s"

text \<open>
  \<open>curs_set\<close> records the visibility and, on Windows, writes it into the
  console's cursor information; the console is taken to accept the request.
\<close>

definition curs_set :: "platform \<Rightarrow> int \<Rightarrow> world \<Rightarrow> world" where
  "curs_set p visibility s =
     (let s1 = s\<lparr>ui := (ui s)\<lparr>cursor_visible := (visibility > 0)\<rparr>\<rparr>
      in case p of
           Win32 c \<Rightarrow> s1\<lparr>sys := (sys s1)\<lparr>console_cursor := cursor_visible (ui s1)\<rparr>\<rparr>
         | Posix c \<Rightarrow> s1)"

subsection \<open>getmaxyx and mvaddch (lines 233-249)\<close>

text \<open>The pair (height, width) the two reference parameters receive.\<close>

definition getmaxyx :: "WINDOW option \<Rightarrow> int \<times> int" where
  "getmaxyx win = (case win of Some w \<Rightarrow> (height w, width w) | None \<Rightarrow> (0, 0))"

text \<open>
  \<^verbatim>\<open>buffer[y][x] = ch\<close> on the vector of vectors: past the end of either
  vector the behaviour is undefined, which the model reports.
\<close>

definition buffer_store :: "char list list \<Rightarrow> nat \<Rightarrow> nat \<Rightarrow> char \<Rightarrow> fault + char list list" where
  "buffer_store b y x ch =
     (if y < length b \<and> x < length (b ! y) then Inr (b[y := (b ! y)[x := ch]])
      else Inl subscript_out_of_range)"

definition mvaddch :: "int \<Rightarrow> int \<Rightarrow> char \<Rightarrow> world \<Rightarrow> fault + world" where
  "mvaddch y x ch s =
     (case current_window (ui s) of
        None \<Rightarrow> Inr s
      | Some w \<Rightarrow>
          if y \<ge> 0 \<and> y < height w \<and> x \<ge> 0 \<and> x < width w then
            (case buffer_store (buffer w) (nat y) (nat x) ch of
               Inl e \<Rightarrow> Inl e
             | Inr b \<Rightarrow> Inr (s\<lparr>ui := (ui s)\<lparr>current_window := Some (w\<lparr>buffer := b\<rparr>)\<rparr>\<rparr>))
          else Inr s)"

subsection \<open>getch (lines 252-273)\<close>

text \<open>
  On Windows \<open>None\<close> is the wait of \<open>windows_getch\<close>. Elsewhere the call always
  returns: \<open>ch0\<close> is what the local \<^verbatim>\<open>ch\<close>, which the source does not
  initialise, holds when \<^verbatim>\<open>read\<close> finds no byte.
\<close>

definition getch :: "platform \<Rightarrow> char \<Rightarrow> world \<Rightarrow> (int \<times> world) option" where
  "getch p ch0 s =
     (case p of
        Win32 c \<Rightarrow>
          (case windows_getch c (console_input (sys s)) of
             None \<Rightarrow> None
           | Some (k, rest) \<Rightarrow> Some (k, s\<lparr>sys := (sys s)\<lparr>console_input := rest\<rparr>\<rparr>))
      | Posix c \<Rightarrow>
          (let old_settings = stdin_attr (sys s);
               e1 = (sys s)\<lparr>stdin_attr := raw_termios c old_settings\<rparr>;
               (ch, e2) = (case stdin_bytes e1 of
                             [] \<Rightarrow> (ch0, e1)
                           | b # bs \<Rightarrow> (b, e1\<lparr>stdin_bytes := bs\<rparr>));
               e3 = e2\<lparr>stdin_attr := old_settings\<rparr>
           in Some (char_to_int ch, s\<lparr>sys := e3\<rparr>)))"

subsection \<open>mvprintw (lines 276-295)\<close>

text \<open>
  \<open>formatted\<close> is the text the format string and its arguments expand to.
  \<^verbatim>\<open>vsnprintf\<close> stores at most 1023 of its characters and a terminating zero in
  the 1024-byte array, and \<^verbatim>\<open>std::string(buffer)\<close> reads the array up to the
  first zero.
\<close>

definition formatted_str :: "string \<Rightarrow> string" where
  "formatted_str formatted = takeWhile (\<lambda>c. c \<noteq> CHR 0x00) (take 1023 formatted)"

text \<open>
  The copy loop of lines 292-294, from index \<open>i\<close> on. When it is entered
  \<open>0 \<le> y\<close> and \<open>0 \<le> x < width\<close> hold, so the conversions of \<^verbatim>\<open>x\<close> and of the
  width to \<^verbatim>\<open>size_t\<close> keep their values, and \<open>x + i\<close>, below \<open>2^31 + 1023\<close>,
  does not wrap: the loop is written on naturals.
\<close>

function print_loop ::
  "char list list \<Rightarrow> nat \<Rightarrow> nat \<Rightarrow> nat \<Rightarrow> string \<Rightarrow> nat \<Rightarrow> fault + char list list" where
  "print_loop b wd y x str i =
     (if i < length str \<and> x + i < wd then
        (case buffer_store b y (x + i) (str ! i) of
           Inl e \<Rightarrow> Inl e
         | Inr b' \<Rightarrow> print_loop b' wd y x str (i + 1))
      else Inr b)"
  by pat_completeness auto
termination
  by (relation "measure (\<lambda>(b, wd, y, x, str, i). length str - i)") auto

definition mvprintw :: "int \<Rightarrow> int \<Rightarrow> string \<Rightarrow> world \<Rightarrow> fault + world" where
  "mvprintw y x formatted s =
     (case current_window (ui s) of
        None \<Rightarrow> Inr s
      | Some w \<Rightarrow>
          if y < 0 \<or> y \<ge> height w \<or> x < 0 \<or> x \<ge> width w then Inr s
          else
            (case print_loop (buffer w) (nat (width w)) (nat y) (nat x)
                    (formatted_str formatted) 0 of
               Inl e \<Rightarrow> Inl e
             | Inr b \<Rightarrow> Inr (s\<lparr>ui := (ui s)\<lparr>current_window := Some (w\<lparr>buffer := b\<rparr>)\<rparr>\<rparr>)))"

subsection \<open>refresh, constructor and destructor (lines 298-332)\<close>

definition refresh :: "world \<Rightarrow> world" where
  "refresh s =
     (case current_window (ui s) of
        None \<Rightarrow> s
      | Some w \<Rightarrow>
          s\<lparr>sys := (sys s)\<lparr>stdout := stdout (sys s) @ [SysClear]
                 @ concat (map (\<lambda>row. map Put row @ [Endl]) (buffer w))\<rparr>\<rparr>)"

text \<open>
  The constructor initialises the pointer and the four flags; the saved
  configuration is left as it is found, here \<open>m\<close> and \<open>t\<close>.
\<close>

definition TerminalUI_new :: "32 word \<Rightarrow> termios \<Rightarrow> TerminalUI" where
  "TerminalUI_new m t =
     \<lparr>current_window = None, is_initialized = False, echo_mode = True,
      nodelay_mode = False, cursor_visible = True, old_console_mode = m, old_termios = t\<rparr>"

definition TerminalUI_delete :: "platform \<Rightarrow> world \<Rightarrow> world" where
  "TerminalUI_delete p s = (if is_initialized (ui s) then endwin p s else s)"

section \<open>Vocabulary of the properties\<close>

text \<open>
  A row after a string was written into it from column \<open>k\<close> on, cut at the
  row's end: the cells before \<open>k\<close>, then as much of \<open>s\<close> as fits, then the cells
  behind the string.
\<close>

definition overwrite :: "'a list \<Rightarrow> nat \<Rightarrow> 'a list \<Rightarrow> 'a list" where
  "overwrite row k s = take k row @ take (length row - k) s @ drop (k + length s) row"

text \<open>
  The invariant of the controller: an owned WINDOW belongs to an initialised
  controller, has the shape its constructor gave it, at least one row and one
  column, and the origin (0, 0).
\<close>

definition ui_inv :: "TerminalUI \<Rightarrow> bool" where
  "ui_inv u =
     (case current_window u of
        None \<Rightarrow> True
      | Some w \<Rightarrow> is_initialized u \<and> wf_window w \<and> 1 \<le> height w \<and> 1 \<le> width w \<and>
                  start_y w = 0 \<and> start_x w = 0)"

text \<open>
  The public operations as calls, and a sequence of calls run from a state.
  \<open>None\<close>: a call did not return (a fault, or \<open>getch\<close> waiting for an event).
\<close>

datatype call =
    Initscr | Endwin | Noecho | Keypad bool | Nodelay bool | Cbreak | Curs_set int
  | Mvaddch int int char | Getch char | Mvprintw int int string | Refresh

fun drop_fault :: "fault + 'a \<Rightarrow> 'a option" where
  "drop_fault (Inl e) = None"
| "drop_fault (Inr v) = Some v"

fun perform :: "platform \<Rightarrow> call \<Rightarrow> world \<Rightarrow> world option" where
  "perform p Initscr s = drop_fault (initscr p s)"
| "perform p Endwin s = Some (endwin p s)"
| "perform p Noecho s = Some (noecho s)"
| "perform p (Keypad enable) s = Some (keypad enable s)"
| "perform p (Nodelay enable) s = Some (nodelay enable s)"
| "perform p Cbreak s = Some (cbreak p s)"
| "perform p (Curs_set visibility) s = Some (curs_set p visibility s)"
| "perform p (Mvaddch y x ch) s = drop_fault (mvaddch y x ch s)"
| "perform p (Getch ch0) s = map_option snd (getch p ch0 s)"
| "perform p (Mvprintw y x formatted) s = drop_fault (mvprintw y x formatted s)"
| "perform p Refresh s = Some (refresh s)"

fun run :: "platform \<Rightarrow> call list \<Rightarrow> world \<Rightarrow> world option" where
  "run p [] s = Some s"
| "run p (c # cs) s = (case perform p c s of None \<Rightarrow> None | Some s' \<Rightarrow> run p cs s')"

text \<open>
  The calls that leave the saved terminal configuration alone: all but the
  three that run \<open>setup_terminal\<close> or end the session.
\<close>

definition keeps_saved :: "call \<Rightarrow> bool" where
  "keeps_saved c = (c \<noteq> Initscr \<and> c \<noteq> Cbreak \<and> c \<noteq> Endwin)"

section \<open>Concrete inputs\<close>

text \<open>
  A Linux terminal in its usual cooked mode (\<^verbatim>\<open>ISIG\<close>, \<^verbatim>\<open>ICANON\<close>, \<^verbatim>\<open>ECHO\<close> and
  others set; \<^verbatim>\<open>VMIN\<close> 1, \<^verbatim>\<open>VTIME\<close> 0), a console in its usual mode, no input
  pending, a display of 24 rows and 80 columns, and a controller fresh from its
  constructor.
\<close>

definition tty0 :: termios where
  "tty0 = \<lparr>c_iflag = 0x4500, c_oflag = 5, c_cflag = 0xBF, c_lflag = 0x8A3B,
            c_cc = [3, 28, 127, 21, 4, 0, 1, 0, 17, 19, 26, 0, 18, 15, 23, 22,
                    0, 0, 0, 0, 0, 0, 0, 0, 0, 0, 0, 0, 0, 0, 0, 0]\<rparr>"

definition os0 :: os where
  "os0 = \<lparr>stdin_attr = tty0, console_mode = 0x1F7, console_cursor = True,
           stdin_bytes = [], console_input = [],
           tiocgwinsz = \<lparr>ws_row = 24, ws_col = 80\<rparr>,
           srWindow = \<lparr>Left = 0, Top = 0, Right = 79, Bottom = 23\<rparr>,
           stdout = []\<rparr>"

definition world0 :: world where
  "world0 = \<lparr>ui = TerminalUI_new 0 \<lparr>c_iflag = 0, c_oflag = 0, c_cflag = 0, c_lflag = 0, c_cc = []\<rparr>,
              sys = os0\<rparr>"

text \<open>
  The same with a display of 2 rows and 3 columns, and the state \<open>initscr\<close>
  leaves on Linux when started there.
\<close>

definition small :: world where
  "small = world0\<lparr>sys := os0\<lparr>tiocgwinsz := \<lparr>ws_row = 2, ws_col = 3\<rparr>\<rparr>\<rparr>"

definition win_2x3 :: WINDOW where
  "win_2x3 = \<lparr>height = 2, width = 3, start_y = 0, start_x = 0, buffer = [''   '', ''   '']\<rparr>"

definition started :: world where
  "started =
     \<lparr>ui = (ui world0)\<lparr>current_window := Some win_2x3, is_initialized := True, old_termios := tty0\<rparr>,
      sys = (sys small)\<lparr>stdin_attr := raw_termios linux_h tty0\<rparr>\<rparr>"

text \<open>A display whose size query reports no rows and no columns.\<close>

definition nodev :: world where
  "nodev = world0\<lparr>sys := os0\<lparr>tiocgwinsz := \<lparr>ws_row = 0, ws_col = 0\<rparr>\<rparr>\<rparr>"

text \<open>
  A size query that fails (standard output is not a terminal): the call leaves
  the structure as it found it, and the source, which never initialises the
  structure and never reads the call's status, goes on to read it. Here the
  structure holds 29712 and 36257, bytes left on the stack.
\<close>

definition failed_query :: world where
  "failed_query = world0\<lparr>sys := os0\<lparr>tiocgwinsz := \<lparr>ws_row = 29712, ws_col = 36257\<rparr>\<rparr>\<rparr>"

text \<open>
  The state \<open>initscr\<close> leaves on Windows when started in \<open>world0\<close>.
\<close>

definition started_win :: world where
  "started_win =
     \<lparr>ui = (ui world0)\<lparr>current_window :=
             Some \<lparr>height = 24, width = 80, start_y = 0, start_x = 0,
                   buffer = replicate (nat 24) (replicate (nat 80) (CHR '' ''))\<rparr>,
           is_initialized := True, old_console_mode := 0x1F7\<rparr>,
      sys = os0\<lparr>console_mode := 0x1F0\<rparr>\<rparr>"

text \<open>
  The started Linux controller with the up arrow pressed: a terminal sends the
  key as the three bytes ESC, \<open>[\<close>, \<open>A\<close>.
\<close>

definition up_arrow_typed :: world where
  "up_arrow_typed = started\<lparr>sys := (sys started)\<lparr>stdin_bytes := [CHR 0x1B, CHR ''['', CHR ''A'']\<rparr>\<rparr>"

section \<open>Properties of the key codes\<close>

lemma key_codes_distinct:
  "distinct [KEY_UP, KEY_DOWN, KEY_LEFT, KEY_RIGHT, KEY_ENTER, KEY_BACKSPACE, KEY_ESC]"
  by (simp add: KEY_UP_def KEY_DOWN_def KEY_LEFT_def KEY_RIGHT_def KEY_ENTER_def
      KEY_BACKSPACE_def KEY_ESC_def)

lemma control_key_codes_not_printable:
  "\<not> printable KEY_ENTER \<and> \<not> printable KEY_BACKSPACE \<and> \<not> printable KEY_ESC"
  by (simp add: printable_def KEY_ENTER_def KEY_BACKSPACE_def KEY_ESC_def)

text \<open>
  C1. The seven key codes are pairwise distinct (\<open>key_codes_distinct\<close>), and
  those of enter, backspace and escape are outside the printable range
  (\<open>control_key_codes_not_printable\<close>). The four arrow codes are not: 72, 80, 75
  and 77 are the codes of the letters H, P, K and M, all printable. On the
  Windows branch the collision is visible to the caller: a key-down event of
  the letter H (virtual key 0x48, character \<open>H\<close>) makes \<open>windows_getch\<close> return
  the very value of \<open>KEY_UP\<close>.
\<close>

theorem arrow_key_codes_printable:
  "printable KEY_UP \<and> printable KEY_DOWN \<and> printable KEY_LEFT \<and> printable KEY_RIGHT \<and>
   KEY_UP = char_to_int (CHR ''H'') \<and> KEY_DOWN = char_to_int (CHR ''P'') \<and>
   KEY_LEFT = char_to_int (CHR ''K'') \<and> KEY_RIGHT = char_to_int (CHR ''M'') \<and>
   windows_getch windows_h
     [\<lparr>EventType = 1, bKeyDown = True, wVirtualKeyCode = 0x48, AsciiChar = CHR ''H''\<rparr>]
     = Some (KEY_UP, [])"
  by (simp add: printable_def KEY_UP_def KEY_DOWN_def KEY_LEFT_def KEY_RIGHT_def
      char_to_int_def windows_h_def)

section \<open>Mode setters\<close>

text \<open>
  C9. A call of \<open>noecho\<close> changes the recorded echo flag and nothing else: the
  operating system's side (so the live terminal configuration of either
  platform), the saved configuration, the owned WINDOW with its buffer, and the
  three other flags are what they were.
\<close>

theorem noecho_frame:
  "echo_mode (ui (noecho s)) = False \<and>
   sys (noecho s) = sys s \<and>
   live_config p (noecho s) = live_config p s \<and>
   saved_config p (noecho s) = saved_config p s \<and>
   old_console_mode (ui (noecho s)) = old_console_mode (ui s) \<and>
   old_termios (ui (noecho s)) = old_termios (ui s) \<and>
   current_window (ui (noecho s)) = current_window (ui s) \<and>
   is_initialized (ui (noecho s)) = is_initialized (ui s) \<and>
   nodelay_mode (ui (noecho s)) = nodelay_mode (ui s) \<and>
   cursor_visible (ui (noecho s)) = cursor_visible (ui s)"
  by (simp add: noecho_def live_config_def saved_config_def split: platform.split)

section \<open>Screen size\<close>

text \<open>
  C6. Each axis gets its default on its own: the height is 24 when the queried
  height is not positive and the queried height otherwise; the width is 80 when
  the queried width is not positive and the queried width otherwise.
\<close>

theorem detect_screen_size_per_axis:
  "fst (detect_screen_size p e) =
     (if fst (queried_size p e) \<le> 0 then 24 else fst (queried_size p e)) \<and>
   snd (detect_screen_size p e) =
     (if snd (queried_size p e) \<le> 0 then 80 else snd (queried_size p e))"
  by (simp add: detect_screen_size_def split: prod.split)

text \<open>
  For instance, a query that reports no rows and 120 columns gives 24 rows and
  120 columns; a window rectangle whose right edge is left of its left edge
  gives 80 columns and keeps its 30 rows.
\<close>

lemma detect_screen_size_examples:
  "detect_screen_size linux (os0\<lparr>tiocgwinsz := \<lparr>ws_row = 0, ws_col = 120\<rparr>\<rparr>) = (24, 120)"
  "detect_screen_size windows
     (os0\<lparr>srWindow := \<lparr>Left = 5, Top = 0, Right = 3, Bottom = 29\<rparr>\<rparr>) = (30, 80)"
  by (simp_all add: detect_screen_size_def queried_size_def linux_def windows_def os0_def)

section \<open>Drawing\<close>

subsection \<open>Rows and shapes\<close>

lemma length_overwrite [simp]: "length (overwrite row k s) = length row"
  by (auto simp: overwrite_def min_def)

lemma overwrite_Nil [simp]: "overwrite row k [] = row"
  by (simp add: overwrite_def)

lemma overwrite_past_end [simp]: "length row \<le> k \<Longrightarrow> overwrite row k s = row"
  by (simp add: overwrite_def)

lemma overwrite_Cons:
  "k < length row \<Longrightarrow> overwrite (row[k := c]) (Suc k) s = overwrite row k (c # s)"
proof -
  assume k: "k < length row"
  have 1: "take (Suc k) (row[k := c]) = take k row @ [c]"
    using k by (simp add: take_Suc_conv_app_nth)
  have 2: "take (length row - k) (c # s) = c # take (length row - Suc k) s"
  proof -
    have "length row - k = Suc (length row - Suc k)" using k by arith
    then show ?thesis by simp
  qed
  show ?thesis
    unfolding overwrite_def using 1 2 by simp
qed

lemma nth_overwrite:
  "c < length row \<Longrightarrow>
   overwrite row k s ! c = (if k \<le> c \<and> c < k + length s then s ! (c - k) else row ! c)"
  by (auto simp: overwrite_def nth_append min_def)

lemma rows_ok_update:
  "rows_ok n b \<Longrightarrow> length row = n \<Longrightarrow> rows_ok n (b[y := row])"
  using set_update_subset_insert[of b y row] by (auto simp: rows_ok_def list_all_iff)

lemma rows_ok_nth: "rows_ok n b \<Longrightarrow> y < length b \<Longrightarrow> length (b ! y) = n"
  by (simp add: rows_ok_def list_all_length)

lemma print_loop_overwrite:
  "y < length b \<Longrightarrow> length (b ! y) = wd \<Longrightarrow>
   print_loop b wd y x str i = Inr (b[y := overwrite (b ! y) (x + i) (drop i str)])"
proof (induction b wd y x str i rule: print_loop.induct)
  case (1 b wd y x str i)
  show ?case
  proof (cases "i < length str \<and> x + i < wd")
    case True
    let ?b' = "b[y := (b ! y)[x + i := str ! i]]"
    from True 1 have st: "buffer_store b y (x + i) (str ! i) = Inr ?b'"
      by (simp add: buffer_store_def)
    have "print_loop ?b' wd y x str (i + 1)
            = Inr (?b'[y := overwrite (?b' ! y) (x + (i + 1)) (drop (i + 1) str)])"
      using "1.IH"[OF True st] "1.prems" by simp
    also have "?b' ! y = (b ! y)[x + i := str ! i]"
      using "1.prems" by simp
    also have "overwrite ((b ! y)[x + i := str ! i]) (x + (i + 1)) (drop (i + 1) str)
                 = overwrite (b ! y) (x + i) (drop i str)"
      using True "1.prems" overwrite_Cons[of "x + i" "b ! y" "str ! i" "drop (Suc i) str"]
      by (simp add: Cons_nth_drop_Suc)
    finally show ?thesis
      using True st by (subst print_loop.simps) simp
  next
    case False
    then have "overwrite (b ! y) (x + i) (drop i str) = b ! y"
      using "1.prems" by (cases "i < length str") auto
    then show ?thesis
      using False by (subst print_loop.simps) auto
  qed
qed


lemma overwrite_HELLO:
  assumes "2 \<le> length row"
  shows "overwrite row (length row - 2) ''HELLO'' = take (length row - 2) row @ ''HE''"
proof -
  have "length row - (length row - 2) = 2" using assms by arith
  then show ?thesis by (simp add: overwrite_def)
qed

lemma wf_window_new:
  "0 \<le> h \<Longrightarrow> 0 \<le> w \<Longrightarrow>
   \<exists>win. WINDOW_new h w y x = Inr win \<and> wf_window win \<and> height win = h \<and> width win = w \<and>
         start_y win = y \<and> start_x win = x \<and>
         buffer win = replicate (nat h) (replicate (nat w) (CHR '' ''))"
  by (simp add: WINDOW_new_def wf_window_def rows_ok_def list_all_iff)

lemma wf_window_row:
  "wf_window w \<Longrightarrow> 0 \<le> y \<Longrightarrow> y < height w \<Longrightarrow>
   nat y < length (buffer w) \<and> length (buffer w ! nat y) = nat (width w)"
  by (auto simp: wf_window_def rows_ok_nth)

lemma wf_window_buffer_update:
  "wf_window w \<Longrightarrow> length row = nat (width w) \<Longrightarrow>
   wf_window (w\<lparr>buffer := (buffer w)[y := row]\<rparr>)"
  by (simp add: wf_window_def rows_ok_update)

lemma mvaddch_no_window:
  "current_window (ui s) = None \<Longrightarrow> mvaddch y x ch s = Inr s"
  by (simp add: mvaddch_def)

lemma mvaddch_out_of_bounds:
  "current_window (ui s) = Some w \<Longrightarrow> y < 0 \<or> height w \<le> y \<or> x < 0 \<or> width w \<le> x \<Longrightarrow>
   mvaddch y x ch s = Inr s"
  by (auto simp: mvaddch_def)

lemma mvaddch_in_bounds:
  assumes "current_window (ui s) = Some w" "wf_window w"
    and "0 \<le> y" "y < height w" "0 \<le> x" "x < width w"
  shows "mvaddch y x ch s =
           Inr (s\<lparr>ui := (ui s)\<lparr>current_window :=
                  Some (w\<lparr>buffer := (buffer w)[nat y := (buffer w ! nat y)[nat x := ch]]\<rparr>)\<rparr>\<rparr>)"
proof -
  from wf_window_row[OF assms(2,3,4)] assms(5,6)
  have "buffer_store (buffer w) (nat y) (nat x) ch =
          Inr ((buffer w)[nat y := (buffer w ! nat y)[nat x := ch]])"
    by (simp add: buffer_store_def)
  with assms show ?thesis by (simp add: mvaddch_def)
qed

lemma mvprintw_no_window:
  "current_window (ui s) = None \<Longrightarrow> mvprintw y x formatted s = Inr s"
  by (simp add: mvprintw_def)

lemma mvprintw_out_of_bounds:
  "current_window (ui s) = Some w \<Longrightarrow> y < 0 \<or> height w \<le> y \<or> x < 0 \<or> width w \<le> x \<Longrightarrow>
   mvprintw y x formatted s = Inr s"
  by (auto simp: mvprintw_def)

lemma mvprintw_in_bounds:
  assumes "current_window (ui s) = Some w" "wf_window w"
    and "0 \<le> y" "y < height w" "0 \<le> x" "x < width w"
  shows "mvprintw y x formatted s =
           Inr (s\<lparr>ui := (ui s)\<lparr>current_window :=
                  Some (w\<lparr>buffer := (buffer w)[nat y :=
                     overwrite (buffer w ! nat y) (nat x) (formatted_str formatted)]\<rparr>)\<rparr>\<rparr>)"
proof -
  from wf_window_row[OF assms(2,3,4)]
  have "print_loop (buffer w) (nat (width w)) (nat y) (nat x) (formatted_str formatted) 0 =
          Inr ((buffer w)[nat y := overwrite (buffer w ! nat y) (nat x) (formatted_str formatted)])"
    using print_loop_overwrite[of "nat y" "buffer w" "nat (width w)" "nat x" _ 0] by simp
  with assms show ?thesis by (simp add: mvprintw_def)
qed

lemma formatted_str_plain:
  "length formatted \<le> 1023 \<Longrightarrow> CHR 0x00 \<notin> set formatted \<Longrightarrow> formatted_str formatted = formatted"
  by (auto simp: formatted_str_def)

lemma formatted_str_HELLO: "formatted_str ''HELLO'' = ''HELLO''"
  by (simp add: formatted_str_def)

lemma started_reached: "initscr linux small = Inr started"
proof -
  have size: "detect_screen_size linux (sys small) = (2, 3)"
    by (simp add: detect_screen_size_def queried_size_def linux_def small_def os0_def)
  have win: "WINDOW_new 2 3 0 0 = Inr win_2x3"
    by (simp add: WINDOW_new_def win_2x3_def numeral_2_eq_2 numeral_3_eq_3)
  show ?thesis
    using size win
    by (simp add: initscr_def Let_def linux_def setup_terminal_def started_def small_def
        world0_def os0_def TerminalUI_new_def)
qed

lemma wf_win_2x3: "wf_window win_2x3"
  by (simp add: wf_window_def win_2x3_def rows_ok_def)

subsection \<open>mvaddch\<close>

text \<open>
  C3. Without a WINDOW, or with (y, x) outside the WINDOW, \<open>mvaddch\<close> returns
  the state it was given and no fault. With (y, x) inside a WINDOW of the
  constructor's shape it returns a state whose buffer holds \<open>ch\<close> in row \<open>y\<close>,
  column \<open>x\<close>.
\<close>

theorem mvaddch_spec:
  "(current_window (ui s) = None \<longrightarrow> mvaddch y x ch s = Inr s) \<and>
   (\<forall>w. current_window (ui s) = Some w \<and> (y < 0 \<or> height w \<le> y \<or> x < 0 \<or> width w \<le> x)
        \<longrightarrow> mvaddch y x ch s = Inr s) \<and>
   (\<forall>w. current_window (ui s) = Some w \<and> wf_window w \<and>
        0 \<le> y \<and> y < height w \<and> 0 \<le> x \<and> x < width w
        \<longrightarrow> (\<exists>s' w'. mvaddch y x ch s = Inr s' \<and> current_window (ui s') = Some w' \<and>
                     wf_window w' \<and> nat y < length (buffer w') \<and>
                     nat x < length (buffer w' ! nat y) \<and> buffer w' ! nat y ! nat x = ch))"
proof (intro conjI allI impI)
  fix w
  assume a: "current_window (ui s) = Some w \<and> wf_window w \<and>
             0 \<le> y \<and> y < height w \<and> 0 \<le> x \<and> x < width w"
  then have row: "nat y < length (buffer w)" "length (buffer w ! nat y) = nat (width w)"
    using wf_window_row[of w y] by simp_all
  let ?w' = "w\<lparr>buffer := (buffer w)[nat y := (buffer w ! nat y)[nat x := ch]]\<rparr>"
  have "mvaddch y x ch s = Inr (s\<lparr>ui := (ui s)\<lparr>current_window := Some ?w'\<rparr>\<rparr>)"
    using a by (simp add: mvaddch_in_bounds)
  moreover have "wf_window ?w'"
    using a row by (simp add: wf_window_buffer_update)
  moreover have "nat y < length (buffer ?w')" "nat x < length (buffer ?w' ! nat y)"
    "buffer ?w' ! nat y ! nat x = ch"
    using a row by simp_all
  ultimately show "\<exists>s' w'. mvaddch y x ch s = Inr s' \<and> current_window (ui s') = Some w' \<and>
                     wf_window w' \<and> nat y < length (buffer w') \<and>
                     nat x < length (buffer w' ! nat y) \<and> buffer w' ! nat y ! nat x = ch"
    by (intro exI[of _ "s\<lparr>ui := (ui s)\<lparr>current_window := Some ?w'\<rparr>\<rparr>"] exI[of _ ?w']) simp
qed (simp_all add: mvaddch_no_window mvaddch_out_of_bounds)


theorem mvaddch_spec_witness:
  "current_window (ui world0) = None \<and>
   mvaddch 0 0 (CHR ''Z'') world0 = Inr world0 \<and>
   current_window (ui started) = Some win_2x3 \<and> wf_window win_2x3 \<and>
   mvaddch 2 0 (CHR ''Z'') started = Inr started \<and>
   mvaddch 0 (- 1) (CHR ''Z'') started = Inr started \<and>
   (\<exists>s' w'. mvaddch 1 2 (CHR ''Z'') started = Inr s' \<and> current_window (ui s') = Some w' \<and>
            wf_window w' \<and> nat 1 < length (buffer w') \<and>
            nat 2 < length (buffer w' ! nat 1) \<and> buffer w' ! nat 1 ! nat 2 = CHR ''Z'')"
proof -
  have a: "current_window (ui world0) = None"
    by (simp add: world0_def TerminalUI_new_def)
  have b: "current_window (ui started) = Some win_2x3"
    by (simp add: started_def)
  have g: "height win_2x3 = 2" "width win_2x3 = 3"
    by (simp_all add: win_2x3_def)
  note c = wf_win_2x3
  from mvaddch_spec[of world0 0 0 "CHR ''Z''"] a
  have 1: "mvaddch 0 0 (CHR ''Z'') world0 = Inr world0" by simp
  from mvaddch_spec[of started 2 0 "CHR ''Z''"] b g
  have 2: "mvaddch 2 0 (CHR ''Z'') started = Inr started" by simp
  from mvaddch_spec[of started 0 "- 1" "CHR ''Z''"] b g
  have 3: "mvaddch 0 (- 1) (CHR ''Z'') started = Inr started" by simp
  from mvaddch_spec[of started 1 2 "CHR ''Z''"] b c g
  have 4: "\<exists>s' w'. mvaddch 1 2 (CHR ''Z'') started = Inr s' \<and> current_window (ui s') = Some w' \<and>
            wf_window w' \<and> nat 1 < length (buffer w') \<and>
            nat 2 < length (buffer w' ! nat 1) \<and> buffer w' ! nat 1 ! nat 2 = CHR ''Z''"
    by simp
  from a b c 1 2 3 4 show ?thesis by blast
qed

text \<open>The run itself: the cell in row 1, column 2 of the 2 by 3 buffer.\<close>

lemma mvaddch_example:
  "mvaddch 1 2 (CHR ''Z'') started =
     Inr (started\<lparr>ui := (ui started)\<lparr>current_window :=
            Some (win_2x3\<lparr>buffer := [''   '', ''  Z'']\<rparr>)\<rparr>\<rparr>)"
  by (simp add: mvaddch_def started_def win_2x3_def buffer_store_def numeral_2_eq_2)

subsection \<open>mvprintw\<close>

text \<open>
  C4. Without a WINDOW, or with a start (y, x) outside it, \<open>mvprintw\<close> returns
  the state it was given. With the start inside a WINDOW of the constructor's
  shape, row \<open>y\<close> keeps its cells before column \<open>x\<close>, holds from column \<open>x\<close> on
  the characters of the formatted string in their order, as many as fit before
  the right edge, and keeps the cells behind the string. So
  \<open>mvprintw 0 (width - 2) "HELLO"\<close> writes H and E into the last two cells of
  row 0 and nothing more.
\<close>

theorem mvprintw_spec:
  "(current_window (ui s) = None \<longrightarrow> mvprintw y x formatted s = Inr s) \<and>
   (\<forall>w. current_window (ui s) = Some w \<and> (y < 0 \<or> height w \<le> y \<or> x < 0 \<or> width w \<le> x)
        \<longrightarrow> mvprintw y x formatted s = Inr s) \<and>
   (\<forall>w. current_window (ui s) = Some w \<and> wf_window w \<and>
        0 \<le> y \<and> y < height w \<and> 0 \<le> x \<and> x < width w
        \<longrightarrow> mvprintw y x formatted s =
              Inr (s\<lparr>ui := (ui s)\<lparr>current_window := Some (w\<lparr>buffer := (buffer w)[nat y :=
                     take (nat x) (buffer w ! nat y)
                     @ take (nat (width w) - nat x) (formatted_str formatted)
                     @ drop (nat x + length (formatted_str formatted)) (buffer w ! nat y)]\<rparr>)\<rparr>\<rparr>)) \<and>
   (\<forall>w. current_window (ui s) = Some w \<and> wf_window w \<and> 1 \<le> height w \<and> 2 \<le> width w
        \<longrightarrow> mvprintw 0 (width w - 2) ''HELLO'' s =
              Inr (s\<lparr>ui := (ui s)\<lparr>current_window := Some (w\<lparr>buffer := (buffer w)[0 :=
                     take (nat (width w) - 2) (buffer w ! 0) @ ''HE'']\<rparr>)\<rparr>\<rparr>))"
proof (intro conjI allI impI)
  fix w
  assume a: "current_window (ui s) = Some w \<and> wf_window w \<and>
             0 \<le> y \<and> y < height w \<and> 0 \<le> x \<and> x < width w"
  then have "length (buffer w ! nat y) = nat (width w)"
    using wf_window_row[of w y] by simp
  then have "overwrite (buffer w ! nat y) (nat x) (formatted_str formatted) =
               take (nat x) (buffer w ! nat y)
               @ take (nat (width w) - nat x) (formatted_str formatted)
               @ drop (nat x + length (formatted_str formatted)) (buffer w ! nat y)"
    by (simp add: overwrite_def)
  then show "mvprintw y x formatted s =
              Inr (s\<lparr>ui := (ui s)\<lparr>current_window := Some (w\<lparr>buffer := (buffer w)[nat y :=
                     take (nat x) (buffer w ! nat y)
                     @ take (nat (width w) - nat x) (formatted_str formatted)
                     @ drop (nat x + length (formatted_str formatted)) (buffer w ! nat y)]\<rparr>)\<rparr>\<rparr>)"
    using a mvprintw_in_bounds[of s w y x formatted] by simp
next
  fix w
  assume a: "current_window (ui s) = Some w \<and> wf_window w \<and> 1 \<le> height w \<and> 2 \<le> width w"
  then have len: "length (buffer w ! 0) = nat (width w)"
    using wf_window_row[of w 0] by simp
  from a have w2: "2 \<le> width w" by simp
  have "2 \<le> nat (width w)" "nat (width w - 2) = nat (width w) - 2"
    using w2 by arith+
  then have "overwrite (buffer w ! 0) (nat (width w - 2)) ''HELLO'' =
               take (nat (width w) - 2) (buffer w ! 0) @ ''HE''"
    using len overwrite_HELLO[of "buffer w ! 0"] by simp
  then show "mvprintw 0 (width w - 2) ''HELLO'' s =
              Inr (s\<lparr>ui := (ui s)\<lparr>current_window := Some (w\<lparr>buffer := (buffer w)[0 :=
                     take (nat (width w) - 2) (buffer w ! 0) @ ''HE'']\<rparr>)\<rparr>\<rparr>)"
    using a mvprintw_in_bounds[of s w 0 "width w - 2" "''HELLO''"]
    by (simp add: formatted_str_HELLO)
qed (simp_all add: mvprintw_no_window mvprintw_out_of_bounds)

theorem mvprintw_spec_witness:
  "current_window (ui world0) = None \<and>
   mvprintw 0 0 ''HELLO'' world0 = Inr world0 \<and>
   current_window (ui started) = Some win_2x3 \<and> wf_window win_2x3 \<and>
   mvprintw 2 0 ''HELLO'' started = Inr started \<and>
   mvprintw 1 1 ''HELLO'' started =
     Inr (started\<lparr>ui := (ui started)\<lparr>current_window :=
            Some (win_2x3\<lparr>buffer := [''   '', '' HE'']\<rparr>)\<rparr>\<rparr>) \<and>
   mvprintw 0 (width win_2x3 - 2) ''HELLO'' started =
     Inr (started\<lparr>ui := (ui started)\<lparr>current_window :=
            Some (win_2x3\<lparr>buffer := ['' HE'', ''   '']\<rparr>)\<rparr>\<rparr>)"
proof -
  have a: "current_window (ui world0) = None"
    by (simp add: world0_def TerminalUI_new_def)
  have b: "current_window (ui started) = Some win_2x3"
    by (simp add: started_def)
  have g: "height win_2x3 = 2" "width win_2x3 = 3" "buffer win_2x3 = [''   '', ''   '']"
    by (simp_all add: win_2x3_def)
  note c = wf_win_2x3
  from mvprintw_spec[of world0 0 0 "''HELLO''"] a
  have 1: "mvprintw 0 0 ''HELLO'' world0 = Inr world0" by simp
  from mvprintw_spec[of started 2 0 "''HELLO''"] b g
  have 2: "mvprintw 2 0 ''HELLO'' started = Inr started" by simp
  from mvprintw_spec[of started 1 1 "''HELLO''"] b c g
  have 3: "mvprintw 1 1 ''HELLO'' started =
     Inr (started\<lparr>ui := (ui started)\<lparr>current_window :=
            Some (win_2x3\<lparr>buffer := [''   '', '' HE'']\<rparr>)\<rparr>\<rparr>)"
    by (simp add: formatted_str_HELLO)
  from mvprintw_spec[of started 0 0 "''HELLO''"] b c g
  have 4: "mvprintw 0 (width win_2x3 - 2) ''HELLO'' started =
     Inr (started\<lparr>ui := (ui started)\<lparr>current_window :=
            Some (win_2x3\<lparr>buffer := ['' HE'', ''   '']\<rparr>)\<rparr>\<rparr>)"
    by simp
  from a b c 1 2 3 4 show ?thesis by blast
qed

subsection \<open>What drawing leaves alone\<close>

text \<open>
  C10. With (y, x) inside a WINDOW of the constructor's shape, \<open>mvaddch\<close>
  replaces the WINDOW by one of the same height, width and origin whose buffer
  has the same shape and differs from the old one in no cell but (y, x); the
  rest of the state is untouched. \<open>mvprintw\<close> likewise keeps the geometry, the
  shape, every row other than \<open>y\<close>, and the cells of row \<open>y\<close> before column \<open>x\<close>.
\<close>

theorem drawing_frame:
  "(\<forall>w. current_window (ui s) = Some w \<and> wf_window w \<and>
        0 \<le> y \<and> y < height w \<and> 0 \<le> x \<and> x < width w
        \<longrightarrow> (\<exists>w'. mvaddch y x ch s = Inr (s\<lparr>ui := (ui s)\<lparr>current_window := Some w'\<rparr>\<rparr>) \<and>
                  height w' = height w \<and> width w' = width w \<and>
                  start_y w' = start_y w \<and> start_x w' = start_x w \<and>
                  length (buffer w') = length (buffer w) \<and>
                  (\<forall>r. r < length (buffer w) \<longrightarrow> length (buffer w' ! r) = length (buffer w ! r)) \<and>
                  (\<forall>r c. r < length (buffer w) \<and> c < length (buffer w ! r) \<and>
                         (r \<noteq> nat y \<or> c \<noteq> nat x)
                         \<longrightarrow> buffer w' ! r ! c = buffer w ! r ! c))) \<and>
   (\<forall>w. current_window (ui s) = Some w \<and> wf_window w \<and>
        0 \<le> y \<and> y < height w \<and> 0 \<le> x \<and> x < width w
        \<longrightarrow> (\<exists>w'. mvprintw y x formatted s = Inr (s\<lparr>ui := (ui s)\<lparr>current_window := Some w'\<rparr>\<rparr>) \<and>
                  height w' = height w \<and> width w' = width w \<and>
                  start_y w' = start_y w \<and> start_x w' = start_x w \<and>
                  length (buffer w') = length (buffer w) \<and>
                  (\<forall>r. r < length (buffer w) \<longrightarrow> length (buffer w' ! r) = length (buffer w ! r)) \<and>
                  (\<forall>r. r < length (buffer w) \<and> r \<noteq> nat y \<longrightarrow> buffer w' ! r = buffer w ! r) \<and>
                  (\<forall>c. c < nat x \<longrightarrow> buffer w' ! nat y ! c = buffer w ! nat y ! c)))"
proof (intro conjI allI impI)
  fix w
  assume a: "current_window (ui s) = Some w \<and> wf_window w \<and>
             0 \<le> y \<and> y < height w \<and> 0 \<le> x \<and> x < width w"
  then have row: "nat y < length (buffer w)"
    using wf_window_row[of w y] by simp
  let ?w' = "w\<lparr>buffer := (buffer w)[nat y := (buffer w ! nat y)[nat x := ch]]\<rparr>"
  have "mvaddch y x ch s = Inr (s\<lparr>ui := (ui s)\<lparr>current_window := Some ?w'\<rparr>\<rparr>)"
    using a by (simp add: mvaddch_in_bounds)
  moreover have "\<forall>r. r < length (buffer w) \<longrightarrow> length (buffer ?w' ! r) = length (buffer w ! r)"
    using row by (auto simp: nth_list_update)
  moreover have "\<forall>r c. r < length (buffer w) \<and> c < length (buffer w ! r) \<and>
                   (r \<noteq> nat y \<or> c \<noteq> nat x) \<longrightarrow> buffer ?w' ! r ! c = buffer w ! r ! c"
    using row by (auto simp: nth_list_update)
  ultimately show "\<exists>w'. mvaddch y x ch s = Inr (s\<lparr>ui := (ui s)\<lparr>current_window := Some w'\<rparr>\<rparr>) \<and>
                  height w' = height w \<and> width w' = width w \<and>
                  start_y w' = start_y w \<and> start_x w' = start_x w \<and>
                  length (buffer w') = length (buffer w) \<and>
                  (\<forall>r. r < length (buffer w) \<longrightarrow> length (buffer w' ! r) = length (buffer w ! r)) \<and>
                  (\<forall>r c. r < length (buffer w) \<and> c < length (buffer w ! r) \<and>
                         (r \<noteq> nat y \<or> c \<noteq> nat x)
                         \<longrightarrow> buffer w' ! r ! c = buffer w ! r ! c)"
    by (intro exI[of _ ?w']) simp
next
  fix w
  assume a: "current_window (ui s) = Some w \<and> wf_window w \<and>
             0 \<le> y \<and> y < height w \<and> 0 \<le> x \<and> x < width w"
  then have row: "nat y < length (buffer w)"
    using wf_window_row[of w y] by simp
  let ?w' = "w\<lparr>buffer := (buffer w)[nat y :=
               overwrite (buffer w ! nat y) (nat x) (formatted_str formatted)]\<rparr>"
  have "mvprintw y x formatted s = Inr (s\<lparr>ui := (ui s)\<lparr>current_window := Some ?w'\<rparr>\<rparr>)"
    using a by (simp add: mvprintw_in_bounds)
  moreover have "\<forall>r. r < length (buffer w) \<longrightarrow> length (buffer ?w' ! r) = length (buffer w ! r)"
    using row by (auto simp: nth_list_update)
  moreover have "\<forall>r. r < length (buffer w) \<and> r \<noteq> nat y \<longrightarrow> buffer ?w' ! r = buffer w ! r"
    by simp
  moreover have "\<forall>c. c < nat x \<longrightarrow> buffer ?w' ! nat y ! c = buffer w ! nat y ! c"
  proof (intro allI impI)
    fix c assume c: "c < nat x"
    have "length (buffer w ! nat y) = nat (width w)"
      using a wf_window_row[of w y] by simp
    moreover have "nat x < nat (width w)"
      using a by simp
    ultimately have "c < length (buffer w ! nat y)"
      using c by arith
    then have "overwrite (buffer w ! nat y) (nat x) (formatted_str formatted) ! c
                 = buffer w ! nat y ! c"
      using c by (simp only: nth_overwrite) simp
    then show "buffer ?w' ! nat y ! c = buffer w ! nat y ! c"
      using row by simp
  qed
  ultimately show "\<exists>w'. mvprintw y x formatted s = Inr (s\<lparr>ui := (ui s)\<lparr>current_window := Some w'\<rparr>\<rparr>) \<and>
                  height w' = height w \<and> width w' = width w \<and>
                  start_y w' = start_y w \<and> start_x w' = start_x w \<and>
                  length (buffer w') = length (buffer w) \<and>
                  (\<forall>r. r < length (buffer w) \<longrightarrow> length (buffer w' ! r) = length (buffer w ! r)) \<and>
                  (\<forall>r. r < length (buffer w) \<and> r \<noteq> nat y \<longrightarrow> buffer w' ! r = buffer w ! r) \<and>
                  (\<forall>c. c < nat x \<longrightarrow> buffer w' ! nat y ! c = buffer w ! nat y ! c)"
    by (intro exI[of _ ?w']) simp
qed


theorem drawing_frame_witness:
  "current_window (ui started) = Some win_2x3 \<and> wf_window win_2x3 \<and>
   (\<exists>w'. mvaddch 1 2 (CHR ''Z'') started =
            Inr (started\<lparr>ui := (ui started)\<lparr>current_window := Some w'\<rparr>\<rparr>) \<and>
          height w' = 2 \<and> width w' = 3 \<and> start_y w' = 0 \<and> start_x w' = 0 \<and>
          length (buffer w') = 2 \<and>
          buffer w' ! 0 ! 0 = CHR '' '' \<and> buffer w' ! 1 ! 1 = CHR '' '') \<and>
   (\<exists>w'. mvprintw 1 1 ''HELLO'' started =
            Inr (started\<lparr>ui := (ui started)\<lparr>current_window := Some w'\<rparr>\<rparr>) \<and>
          height w' = 2 \<and> width w' = 3 \<and> start_y w' = 0 \<and> start_x w' = 0 \<and>
          length (buffer w') = 2 \<and>
          buffer w' ! 0 = ''   '' \<and> buffer w' ! 1 ! 0 = CHR '' '')"
proof -
  have b: "current_window (ui started) = Some win_2x3"
    by (simp add: started_def)
  have g: "height win_2x3 = 2" "width win_2x3 = 3" "start_y win_2x3 = 0" "start_x win_2x3 = 0"
    "buffer win_2x3 = [''   '', ''   '']"
    by (simp_all add: win_2x3_def)
  note c = wf_win_2x3
  from drawing_frame[of started 1 2 "CHR ''Z''" "''HELLO''"] b c g
  obtain w' where 1: "mvaddch 1 2 (CHR ''Z'') started =
            Inr (started\<lparr>ui := (ui started)\<lparr>current_window := Some w'\<rparr>\<rparr>)"
    "height w' = 2" "width w' = 3" "start_y w' = 0" "start_x w' = 0" "length (buffer w') = 2"
    "\<forall>r c. r < 2 \<and> c < length ([''   '', ''   ''] ! r) \<and> (r \<noteq> 1 \<or> c \<noteq> 2)
         \<longrightarrow> buffer w' ! r ! c = [''   '', ''   ''] ! r ! c"
    by auto
  from 1(7)[rule_format, of 0 0] 1(7)[rule_format, of 1 1]
  have 2: "buffer w' ! 0 ! 0 = CHR '' ''" "buffer w' ! 1 ! 1 = CHR '' ''"
    by simp_all
  from drawing_frame[of started 1 1 "CHR ''Z''" "''HELLO''"] b c g
  obtain w'' where 3: "mvprintw 1 1 ''HELLO'' started =
            Inr (started\<lparr>ui := (ui started)\<lparr>current_window := Some w''\<rparr>\<rparr>)"
    "height w'' = 2" "width w'' = 3" "start_y w'' = 0" "start_x w'' = 0" "length (buffer w'') = 2"
    "\<forall>r. r < 2 \<and> r \<noteq> 1 \<longrightarrow> buffer w'' ! r = [''   '', ''   ''] ! r"
    "\<forall>c. c < 1 \<longrightarrow> buffer w'' ! 1 ! c = [''   '', ''   ''] ! 1 ! c"
    by auto
  from 3(7)[rule_format, of 0] 3(8)[rule_format, of 0]
  have 4: "buffer w'' ! 0 = ''   ''" "buffer w'' ! 1 ! 0 = CHR '' ''"
    by simp_all
  from b c 1 2 3 4 show ?thesis by blast
qed

section \<open>Starting and stopping\<close>

subsection \<open>initscr\<close>

lemma detect_screen_size_positive:
  "1 \<le> fst (detect_screen_size p e) \<and> 1 \<le> snd (detect_screen_size p e)"
  by (simp add: detect_screen_size_def split: prod.split)

lemma setup_terminal_ui:
  "current_window (ui (setup_terminal p s)) = current_window (ui s)"
  "is_initialized (ui (setup_terminal p s)) = is_initialized (ui s)"
  "echo_mode (ui (setup_terminal p s)) = echo_mode (ui s)"
  "nodelay_mode (ui (setup_terminal p s)) = nodelay_mode (ui s)"
  "cursor_visible (ui (setup_terminal p s)) = cursor_visible (ui s)"
  by (simp_all add: setup_terminal_def Let_def split: platform.split)

lemma initscr_result:
  assumes "detect_screen_size p (sys s) = (h, w)"
  shows "initscr p s =
     Inr (setup_terminal p
       (s\<lparr>ui := (ui s)\<lparr>is_initialized := True, echo_mode := True, nodelay_mode := False,
             cursor_visible := True,
             current_window := Some \<lparr>height = h, width = w, start_y = 0, start_x = 0,
               buffer = replicate (nat h) (replicate (nat w) (CHR '' ''))\<rparr>\<rparr>\<rparr>))"
proof -
  from detect_screen_size_positive[of p "sys s"] assms have "1 \<le> h" "1 \<le> w"
    by simp_all
  then show ?thesis
    using assms by (simp add: initscr_def WINDOW_new_def)
qed

text \<open>
  What holds after every \<open>initscr\<close>: the call returns; echo is on, no-delay is
  off and the cursor is recorded visible; a WINDOW of origin (0, 0) and of the
  constructor's shape is owned; \<open>getmaxyx\<close> on it gives the detected size, both
  of whose components are at least 1; and the size is (24, 80) when the values
  read from the query's structure are not positive on either axis.
\<close>

lemma initscr_spec:
  "\<exists>s' w. initscr p s = Inr s' \<and>
      echo_mode (ui s') \<and> \<not> nodelay_mode (ui s') \<and> cursor_visible (ui s') \<and>
      current_window (ui s') = Some w \<and> start_y w = 0 \<and> start_x w = 0 \<and> wf_window w \<and>
      getmaxyx (current_window (ui s')) = detect_screen_size p (sys s) \<and>
      1 \<le> fst (getmaxyx (current_window (ui s'))) \<and>
      1 \<le> snd (getmaxyx (current_window (ui s'))) \<and>
      (fst (queried_size p (sys s)) \<le> 0 \<and> snd (queried_size p (sys s)) \<le> 0
         \<longrightarrow> getmaxyx (current_window (ui s')) = (24, 80))"
proof -
  obtain h w where hw: "detect_screen_size p (sys s) = (h, w)"
    by (cases "detect_screen_size p (sys s)")
  from detect_screen_size_positive[of p "sys s"] hw have pos: "1 \<le> h" "1 \<le> w"
    by simp_all
  let ?win = "\<lparr>height = h, width = w, start_y = 0, start_x = 0,
               buffer = replicate (nat h) (replicate (nat w) (CHR '' ''))\<rparr>"
  let ?s' = "setup_terminal p
       (s\<lparr>ui := (ui s)\<lparr>is_initialized := True, echo_mode := True, nodelay_mode := False,
             cursor_visible := True, current_window := Some ?win\<rparr>\<rparr>)"
  have 1: "initscr p s = Inr ?s'"
    by (rule initscr_result[OF hw])
  have 2: "wf_window ?win"
    using pos by (simp add: wf_window_def rows_ok_def list_all_iff)
  have 3: "fst (queried_size p (sys s)) \<le> 0 \<and> snd (queried_size p (sys s)) \<le> 0
             \<longrightarrow> (h, w) = (24, 80)"
    using hw by (auto simp: detect_screen_size_def split: prod.splits)
  show ?thesis
    using 1 2 3 pos hw
    by (intro exI[of _ ?s'] exI[of _ ?win]) (simp add: setup_terminal_ui getmaxyx_def)
qed

lemma initscr_zero_query:
  "fst (queried_size linux (sys nodev)) \<le> 0 \<and> snd (queried_size linux (sys nodev)) \<le> 0 \<and>
   (\<exists>s' w. initscr linux nodev = Inr s' \<and>
      echo_mode (ui s') \<and> \<not> nodelay_mode (ui s') \<and> cursor_visible (ui s') \<and>
      current_window (ui s') = Some w \<and> start_y w = 0 \<and> start_x w = 0 \<and>
      getmaxyx (current_window (ui s')) = (24, 80))"
proof -
  have q: "queried_size linux (sys nodev) = (0, 0)"
    by (simp add: queried_size_def linux_def nodev_def)
  from initscr_spec[of linux nodev] q show ?thesis
    by auto
qed

text \<open>
  C7. The flags, the origin and the lower bound of 1 on both dimensions hold
  after every \<open>initscr\<close> (\<open>initscr_spec\<close>). The size is not (24, 80) whenever
  detection fails: the fallback looks at the values in the structure only, and
  a query that fails leaves there what the uninitialised structure held. With
  29712 and 36257 there, \<open>initscr\<close> returns with the flags at their defaults
  and a WINDOW of origin (0, 0), and \<open>getmaxyx\<close> gives (29712, 36257).
\<close>

theorem initscr_failed_query:
  "queried_size linux (sys failed_query) = (29712, 36257) \<and>
   detect_screen_size linux (sys failed_query) = (29712, 36257) \<and>
   (\<exists>s' w. initscr linux failed_query = Inr s' \<and>
      echo_mode (ui s') \<and> \<not> nodelay_mode (ui s') \<and> cursor_visible (ui s') \<and>
      current_window (ui s') = Some w \<and> start_y w = 0 \<and> start_x w = 0 \<and>
      getmaxyx (current_window (ui s')) = (29712, 36257)) \<and>
   ((29712, 36257) :: int \<times> int) \<noteq> (24, 80)"
proof -
  have q: "queried_size linux (sys failed_query) = (29712, 36257)"
    by (simp add: queried_size_def linux_def failed_query_def)
  then have d: "detect_screen_size linux (sys failed_query) = (29712, 36257)"
    by (simp add: detect_screen_size_def)
  from initscr_spec[of linux failed_query] d
  have "\<exists>s' w. initscr linux failed_query = Inr s' \<and>
      echo_mode (ui s') \<and> \<not> nodelay_mode (ui s') \<and> cursor_visible (ui s') \<and>
      current_window (ui s') = Some w \<and> start_y w = 0 \<and> start_x w = 0 \<and>
      getmaxyx (current_window (ui s')) = (29712, 36257)"
    by auto
  with q d show ?thesis by simp
qed

subsection \<open>endwin\<close>

lemma endwin_not_initialized: "\<not> is_initialized (ui s) \<Longrightarrow> endwin p s = s"
  by (simp add: endwin_def)

lemma endwin_clears:
  "\<not> is_initialized (ui (endwin p s))"
  "is_initialized (ui s) \<Longrightarrow> current_window (ui (endwin p s)) = None"
  by (simp_all add: endwin_def restore_terminal_def Let_def split: platform.split option.split)

lemma ui_inv_not_initialized:
  "ui_inv u \<Longrightarrow> \<not> is_initialized u \<Longrightarrow> current_window u = None"
  by (simp add: ui_inv_def split: option.splits)

text \<open>
  C8. \<open>endwin\<close> on a controller that is not initialised returns the state
  unchanged. After any \<open>endwin\<close> the controller is not initialised, and it owns
  no WINDOW (when the call found it initialised, and under the controller's
  invariant also when it did not). A second \<open>endwin\<close> right after the first
  changes nothing: the whole state, the live terminal configuration with it, is
  that of the single call.
\<close>

theorem endwin_idempotent:
  "(\<not> is_initialized (ui s) \<longrightarrow> endwin p s = s) \<and>
   \<not> is_initialized (ui (endwin p s)) \<and>
   (is_initialized (ui s) \<or> ui_inv (ui s) \<longrightarrow> current_window (ui (endwin p s)) = None) \<and>
   endwin p (endwin p s) = endwin p s \<and>
   live_config p (endwin p (endwin p s)) = live_config p (endwin p s)"
proof -
  have 1: "\<not> is_initialized (ui (endwin p s))"
    by (rule endwin_clears)
  have 2: "endwin p (endwin p s) = endwin p s"
    using 1 by (rule endwin_not_initialized)
  have 3: "is_initialized (ui s) \<or> ui_inv (ui s) \<longrightarrow> current_window (ui (endwin p s)) = None"
  proof (cases "is_initialized (ui s)")
    case True
    then show ?thesis by (simp add: endwin_clears)
  next
    case False
    then show ?thesis
      by (auto simp: endwin_not_initialized dest: ui_inv_not_initialized)
  qed
  from 1 2 3 show ?thesis
    by (simp add: endwin_not_initialized)
qed

lemma ui_inv_started: "ui_inv (ui started)"
  by (simp add: ui_inv_def started_def wf_win_2x3) (simp add: win_2x3_def)

theorem endwin_idempotent_witness:
  "\<not> is_initialized (ui world0) \<and> endwin linux world0 = world0 \<and>
   is_initialized (ui started) \<and> ui_inv (ui started) \<and>
   \<not> is_initialized (ui (endwin linux started)) \<and>
   current_window (ui (endwin linux started)) = None \<and>
   endwin linux (endwin linux started) = endwin linux started \<and>
   live_config linux (endwin linux (endwin linux started)) = Attributes tty0"
proof -
  have a: "\<not> is_initialized (ui world0)"
    by (simp add: world0_def TerminalUI_new_def)
  have b: "is_initialized (ui started)"
    by (simp add: started_def)
  have c: "live_config linux (endwin linux started) = Attributes tty0"
    by (simp add: live_config_def linux_def endwin_def restore_terminal_def started_def Let_def)
  from endwin_idempotent[of world0 linux] a
  have 1: "endwin linux world0 = world0" by simp
  from endwin_idempotent[of started linux] b c ui_inv_started
  have 2: "\<not> is_initialized (ui (endwin linux started)) \<and>
     current_window (ui (endwin linux started)) = None \<and>
     endwin linux (endwin linux started) = endwin linux started \<and>
     live_config linux (endwin linux (endwin linux started)) = Attributes tty0"
    by simp
  from a b 1 2 ui_inv_started show ?thesis by blast
qed


section \<open>The saved terminal configuration\<close>

text \<open>
  Started and stopped with nothing in between that touches the terminal, the
  controller puts back the configuration it found. A \<open>cbreak\<close> in between runs
  \<open>setup_terminal\<close> a second time, which saves the configuration again, now the
  raw one that \<open>initscr\<close> set: \<open>endwin\<close> then puts back the raw configuration.
\<close>

lemma started_win_reached: "initscr windows world0 = Inr started_win"
proof -
  have size: "detect_screen_size windows (sys world0) = (24, 80)"
    by (simp add: detect_screen_size_def queried_size_def windows_def world0_def os0_def)
  have mode: "raw_console_mode windows_h 0x1F7 = 0x1F0"
    by (simp add: raw_console_mode_def windows_h_def)
  have "initscr windows world0 =
     Inr (setup_terminal windows
       (world0\<lparr>ui := (ui world0)\<lparr>is_initialized := True, echo_mode := True,
             nodelay_mode := False, cursor_visible := True,
             current_window := Some \<lparr>height = 24, width = 80, start_y = 0, start_x = 0,
               buffer = replicate (nat 24) (replicate (nat 80) (CHR '' ''))\<rparr>\<rparr>\<rparr>))"
    by (rule initscr_result[OF size])
  also have "\<dots> = Inr started_win"
    using mode by (simp add: windows_def setup_terminal_def started_win_def world0_def os0_def
        TerminalUI_new_def)
  finally show ?thesis .
qed

lemma initscr_endwin_restores:
  assumes "initscr p s = Inr s1"
  shows "live_config p (endwin p s1) = live_config p s"
proof -
  obtain h w where hw: "detect_screen_size p (sys s) = (h, w)"
    by (cases "detect_screen_size p (sys s)")
  from assms show ?thesis
    unfolding initscr_result[OF hw]
    by (auto simp: endwin_def setup_terminal_def restore_terminal_def live_config_def Let_def
        split: platform.splits)
qed

lemma initscr_cbreak_endwin:
  assumes "initscr p s = Inr s1"
  shows "live_config p (endwin p (cbreak p s1)) = live_config p s1"
    and "saved_config p (cbreak p s1) = live_config p s1"
proof -
  obtain h w where hw: "detect_screen_size p (sys s) = (h, w)"
    by (cases "detect_screen_size p (sys s)")
  from assms show "live_config p (endwin p (cbreak p s1)) = live_config p s1"
    unfolding initscr_result[OF hw]
    by (auto simp: endwin_def cbreak_def setup_terminal_def restore_terminal_def live_config_def
        Let_def split: platform.splits)
  show "saved_config p (cbreak p s1) = live_config p s1"
    by (simp add: cbreak_def setup_terminal_def saved_config_def live_config_def Let_def
        split: platform.split)
qed

lemma raw_tty0:
  "raw_termios linux_h tty0 =
     tty0\<lparr>c_lflag := 0x8A31,
          c_cc := [3, 28, 127, 21, 4, 0, 0, 0, 17, 19, 26, 0, 18, 15, 23, 22,
                   0, 0, 0, 0, 0, 0, 0, 0, 0, 0, 0, 0, 0, 0, 0, 0]\<rparr>"
  by (simp add: raw_termios_def linux_h_def tty0_def)

text \<open>
  C2. On Linux, from a terminal in cooked mode (\<open>c_lflag\<close> 0x8A3B, with
  \<^verbatim>\<open>ICANON\<close> and \<^verbatim>\<open>ECHO\<close> set): \<open>initscr\<close> saves that configuration, and
  \<open>endwin\<close> right after restores it. With \<open>cbreak\<close> between the two, the saved
  configuration becomes the raw one and \<open>endwin\<close> leaves the terminal raw
  (\<open>c_lflag\<close> 0x8A31, \<^verbatim>\<open>VMIN\<close> 0): not the configuration captured before the
  first raw-mode change. The Windows branch does the same with the console mode
  (0x1F7 found, 0x1F0 left).
\<close>

theorem cbreak_overwrites_saved_config:
  "live_config linux small = Attributes tty0 \<and>
   initscr linux small = Inr started \<and>
   saved_config linux started = Attributes tty0 \<and>
   live_config linux (endwin linux started) = Attributes tty0 \<and>
   saved_config linux (cbreak linux started) = Attributes (raw_termios linux_h tty0) \<and>
   live_config linux (endwin linux (cbreak linux started)) = Attributes (raw_termios linux_h tty0) \<and>
   raw_termios linux_h tty0 \<noteq> tty0 \<and>
   c_lflag tty0 = 0x8A3B \<and> c_lflag (raw_termios linux_h tty0) = 0x8A31 \<and>
   live_config windows world0 = ConsoleMode 0x1F7 \<and>
   initscr windows world0 = Inr started_win \<and>
   live_config windows (endwin windows started_win) = ConsoleMode 0x1F7 \<and>
   live_config windows (endwin windows (cbreak windows started_win)) = ConsoleMode 0x1F0"
proof -
  have l0: "live_config linux small = Attributes tty0"
    by (simp add: live_config_def linux_def small_def os0_def)
  have l1: "live_config linux started = Attributes (raw_termios linux_h tty0)"
    by (simp add: live_config_def linux_def started_def)
  have l2: "saved_config linux started = Attributes tty0"
    by (simp add: saved_config_def linux_def started_def)
  have l3: "raw_termios linux_h tty0 \<noteq> tty0" "c_lflag tty0 = 0x8A3B"
    "c_lflag (raw_termios linux_h tty0) = 0x8A31"
    by (simp_all add: raw_tty0) (simp_all add: tty0_def)
  have w0: "live_config windows world0 = ConsoleMode 0x1F7"
    by (simp add: live_config_def windows_def world0_def os0_def)
  have w1: "live_config windows started_win = ConsoleMode 0x1F0"
    by (simp add: live_config_def windows_def started_win_def)
  show ?thesis
    using l0 l1 l2 l3 w0 w1 started_reached started_win_reached
      initscr_endwin_restores[OF started_reached] initscr_cbreak_endwin[OF started_reached]
      initscr_endwin_restores[OF started_win_reached]
      initscr_cbreak_endwin[OF started_win_reached]
    by simp
qed

section \<open>Reading keys\<close>

lemma getch_posix_byte:
  "stdin_bytes (sys s) = b # bs \<Longrightarrow>
   getch (Posix c) ch0 s = Some (char_to_int b, s\<lparr>sys := (sys s)\<lparr>stdin_bytes := bs\<rparr>\<rparr>)"
  by (simp add: getch_def Let_def)

lemma getch_posix_no_byte:
  "stdin_bytes (sys s) = [] \<Longrightarrow> getch (Posix c) ch0 s = Some (char_to_int ch0, s)"
  by (simp add: getch_def Let_def)

lemma windows_getch_key_down:
  assumes "EventType r = KEY_EVENT c" "bKeyDown r"
  shows "wVirtualKeyCode r = VK_UP c \<Longrightarrow> windows_getch c (r # rest) = Some (KEY_UP, rest)"
    and "wVirtualKeyCode r = VK_DOWN c \<Longrightarrow> VK_DOWN c \<noteq> VK_UP c \<Longrightarrow>
         windows_getch c (r # rest) = Some (KEY_DOWN, rest)"
    and "wVirtualKeyCode r \<notin> {VK_UP c, VK_DOWN c, VK_LEFT c, VK_RIGHT c, VK_RETURN c, VK_BACK c,
           VK_ESCAPE c} \<Longrightarrow> AsciiChar r \<noteq> CHR 0x00 \<Longrightarrow>
         windows_getch c (r # rest) = Some (char_to_int (AsciiChar r), rest)"
  using assms by simp_all

lemma windows_getch_translates:
  assumes "EventType r = 1" "bKeyDown r"
  shows "windows_getch windows_h (r # rest) =
     (if wVirtualKeyCode r = 0x26 then Some (KEY_UP, rest)
      else if wVirtualKeyCode r = 0x28 then Some (KEY_DOWN, rest)
      else if wVirtualKeyCode r = 0x25 then Some (KEY_LEFT, rest)
      else if wVirtualKeyCode r = 0x27 then Some (KEY_RIGHT, rest)
      else if wVirtualKeyCode r = 0x0D then Some (KEY_ENTER, rest)
      else if wVirtualKeyCode r = 0x08 then Some (KEY_BACKSPACE, rest)
      else if wVirtualKeyCode r = 0x1B then Some (KEY_ESC, rest)
      else if AsciiChar r \<noteq> CHR 0x00 then Some (char_to_int (AsciiChar r), rest)
      else windows_getch windows_h rest)"
  using assms by (simp add: windows_h_def)

lemma char_to_int_printable:
  assumes "printable (char_to_int ch)"
  shows "char_to_int ch = int (of_char ch)"
proof (cases "(of_char ch :: nat) < 128")
  case True
  then show ?thesis by (simp add: char_to_int_def)
next
  case False
  have "(of_char ch :: nat) < 256" by simp
  with assms False have False
    by (simp add: char_to_int_def printable_def del: nat_of_char_less_256)
  then show ?thesis ..
qed

text \<open>
  C5. The Windows branch translates the seven keys and returns any other
  character as its code (\<open>windows_getch_translates\<close>). The other branch
  translates nothing: \<open>getch\<close> returns the byte it read (\<open>getch_posix_byte\<close>).
  With the up arrow pressed it returns 27, the code of the escape key, and the
  next two calls return the codes of \<open>[\<close> and \<open>A\<close>; \<open>KEY_UP\<close> is not returned.
\<close>

theorem getch_posix_up_arrow:
  "stdin_bytes (sys up_arrow_typed) = [CHR 0x1B, CHR ''['', CHR ''A''] \<and>
   getch linux (CHR 0x00) up_arrow_typed =
     Some (KEY_ESC, started\<lparr>sys := (sys started)\<lparr>stdin_bytes := ''[A''\<rparr>\<rparr>) \<and>
   KEY_ESC \<noteq> KEY_UP \<and>
   getch linux (CHR 0x00) (started\<lparr>sys := (sys started)\<lparr>stdin_bytes := ''[A''\<rparr>\<rparr>) =
     Some (char_to_int (CHR ''[''), started\<lparr>sys := (sys started)\<lparr>stdin_bytes := ''A''\<rparr>\<rparr>) \<and>
   getch linux (CHR 0x00) (started\<lparr>sys := (sys started)\<lparr>stdin_bytes := ''A''\<rparr>\<rparr>) =
     Some (char_to_int (CHR ''A''), started\<lparr>sys := (sys started)\<lparr>stdin_bytes := []\<rparr>\<rparr>)"
  by (simp add: up_arrow_typed_def linux_def getch_posix_byte KEY_ESC_def KEY_UP_def
      char_to_int_def)


section \<open>The invariant of the controller\<close>

text \<open>
  The constructor establishes \<open>ui_inv\<close> and every operation that returns keeps
  it, so it holds in every state a sequence of calls reaches. In such states
  the drawing operations never fault: the bounds they check against the height
  and the width are the bounds of the buffer.
\<close>

lemma ui_inv_new: "ui_inv (TerminalUI_new m t)"
  by (simp add: ui_inv_def TerminalUI_new_def)

lemma ui_inv_owned:
  "ui_inv u \<Longrightarrow> current_window u = Some w \<Longrightarrow>
   is_initialized u \<and> wf_window w \<and> 1 \<le> height w \<and> 1 \<le> width w \<and> start_y w = 0 \<and> start_x w = 0"
  by (simp add: ui_inv_def)

lemma initscr_inv: "initscr p s = Inr s' \<Longrightarrow> ui_inv (ui s')"
proof -
  assume a: "initscr p s = Inr s'"
  obtain h w where hw: "detect_screen_size p (sys s) = (h, w)"
    by (cases "detect_screen_size p (sys s)")
  from detect_screen_size_positive[of p "sys s"] hw have pos: "1 \<le> h" "1 \<le> w"
    by simp_all
  from a show ?thesis
    unfolding initscr_result[OF hw] using pos
    by (auto simp: ui_inv_def setup_terminal_ui wf_window_def rows_ok_def list_all_iff)
qed

lemma endwin_inv:
  assumes "ui_inv (ui s)"
  shows "ui_inv (ui (endwin p s))"
proof (cases "is_initialized (ui s)")
  case True
  then show ?thesis by (simp add: ui_inv_def endwin_clears)
next
  case False
  with assms show ?thesis by (simp add: endwin_not_initialized)
qed

lemma setup_terminal_inv: "ui_inv (ui s) \<Longrightarrow> ui_inv (ui (setup_terminal p s))"
  by (simp add: ui_inv_def setup_terminal_ui split: option.splits)

lemma setters_inv:
  "ui_inv (ui s) \<Longrightarrow> ui_inv (ui (noecho s))"
  "ui_inv (ui s) \<Longrightarrow> ui_inv (ui (keypad enable s))"
  "ui_inv (ui s) \<Longrightarrow> ui_inv (ui (nodelay enable s))"
  "ui_inv (ui s) \<Longrightarrow> ui_inv (ui (cbreak p s))"
  "ui_inv (ui s) \<Longrightarrow> ui_inv (ui (curs_set p visibility s))"
  "ui_inv (ui s) \<Longrightarrow> ui_inv (ui (refresh s))"
  by (simp_all add: ui_inv_def noecho_def keypad_def nodelay_def cbreak_def setup_terminal_ui
      curs_set_def refresh_def Let_def split: platform.split option.splits)

lemma getch_ui: "getch p ch0 s = Some (k, s') \<Longrightarrow> ui s' = ui s"
  by (auto simp: getch_def Let_def split: platform.splits option.splits list.splits)

lemma mvaddch_inv:
  assumes "ui_inv (ui s)"
  shows "\<exists>s'. mvaddch y x ch s = Inr s' \<and> ui_inv (ui s')"
proof (cases "current_window (ui s)")
  case None
  with assms show ?thesis by (simp add: mvaddch_no_window)
next
  case (Some w)
  note own = ui_inv_owned[OF assms Some]
  show ?thesis
  proof (cases "0 \<le> y \<and> y < height w \<and> 0 \<le> x \<and> x < width w")
    case True
    then have "length ((buffer w ! nat y)[nat x := ch]) = nat (width w)"
      using own wf_window_row[of w y] by simp
    then have "wf_window (w\<lparr>buffer := (buffer w)[nat y := (buffer w ! nat y)[nat x := ch]]\<rparr>)"
      using own by (simp add: wf_window_buffer_update)
    then show ?thesis
      using True own Some by (simp add: mvaddch_in_bounds ui_inv_def)
  next
    case False
    then have "mvaddch y x ch s = Inr s"
      using Some by (intro mvaddch_out_of_bounds) auto
    with assms show ?thesis by simp
  qed
qed

lemma mvprintw_inv:
  assumes "ui_inv (ui s)"
  shows "\<exists>s'. mvprintw y x formatted s = Inr s' \<and> ui_inv (ui s')"
proof (cases "current_window (ui s)")
  case None
  with assms show ?thesis by (simp add: mvprintw_no_window)
next
  case (Some w)
  note own = ui_inv_owned[OF assms Some]
  show ?thesis
  proof (cases "0 \<le> y \<and> y < height w \<and> 0 \<le> x \<and> x < width w")
    case True
    then have "length (overwrite (buffer w ! nat y) (nat x) (formatted_str formatted))
                 = nat (width w)"
      using own wf_window_row[of w y] by simp
    then have "wf_window (w\<lparr>buffer := (buffer w)[nat y :=
                 overwrite (buffer w ! nat y) (nat x) (formatted_str formatted)]\<rparr>)"
      using own by (simp add: wf_window_buffer_update)
    then show ?thesis
      using True own Some by (simp add: mvprintw_in_bounds ui_inv_def)
  next
    case False
    then have "mvprintw y x formatted s = Inr s"
      using Some by (intro mvprintw_out_of_bounds) auto
    with assms show ?thesis by simp
  qed
qed

lemma perform_inv:
  "ui_inv (ui s) \<Longrightarrow> perform p c s = Some s' \<Longrightarrow> ui_inv (ui s')"
proof (cases c)
  case Initscr
  then show "perform p c s = Some s' \<Longrightarrow> ?thesis"
    by (cases "initscr p s") (auto dest: initscr_inv)
next
  case (Mvaddch y x ch)
  then show "ui_inv (ui s) \<Longrightarrow> perform p c s = Some s' \<Longrightarrow> ?thesis"
    using mvaddch_inv[of s y x ch] by auto
next
  case (Mvprintw y x formatted)
  then show "ui_inv (ui s) \<Longrightarrow> perform p c s = Some s' \<Longrightarrow> ?thesis"
    using mvprintw_inv[of s y x formatted] by auto
next
  case (Getch ch0)
  then show "ui_inv (ui s) \<Longrightarrow> perform p c s = Some s' \<Longrightarrow> ?thesis"
    by (auto dest: getch_ui)
qed (auto simp: endwin_inv setters_inv)

lemma run_inv:
  "ui_inv (ui s) \<Longrightarrow> run p cs s = Some s' \<Longrightarrow> ui_inv (ui s')"
proof (induction cs arbitrary: s)
  case Nil
  then show ?case by simp
next
  case (Cons c cs)
  then show ?case
    by (auto split: option.splits dest: perform_inv)
qed

text \<open>
  A run from the fresh controller on the 2 by 3 display: start, put a Z in the
  last cell, show the buffer, stop.
\<close>

lemma run_example:
  "run linux [Initscr, Mvaddch 1 2 (CHR ''Z''), Refresh, Endwin] small =
     Some (small\<lparr>ui := (ui small)\<lparr>old_termios := tty0\<rparr>,
                  sys := (sys small)\<lparr>stdout :=
                    [SysClear, Put (CHR '' ''), Put (CHR '' ''), Put (CHR '' ''), Endl,
                     Put (CHR '' ''), Put (CHR '' ''), Put (CHR ''Z''), Endl, SysClear]\<rparr>\<rparr>)"
proof -
  have "run linux [Initscr, Mvaddch 1 2 (CHR ''Z''), Refresh, Endwin] small =
        run linux [Refresh, Endwin] (started\<lparr>ui := (ui started)\<lparr>current_window :=
            Some (win_2x3\<lparr>buffer := [''   '', ''  Z'']\<rparr>)\<rparr>\<rparr>)"
    by (simp add: started_reached mvaddch_example)
  also have "\<dots> = Some (small\<lparr>ui := (ui small)\<lparr>old_termios := tty0\<rparr>,
                  sys := (sys small)\<lparr>stdout :=
                    [SysClear, Put (CHR '' ''), Put (CHR '' ''), Put (CHR '' ''), Endl,
                     Put (CHR '' ''), Put (CHR '' ''), Put (CHR ''Z''), Endl, SysClear]\<rparr>\<rparr>)"
    by (simp add: refresh_def endwin_def restore_terminal_def linux_def started_def Let_def
        small_def world0_def os0_def TerminalUI_new_def)
  finally show ?thesis .
qed


section \<open>Restoring the terminal\<close>

text \<open>
  Between \<open>initscr\<close> and \<open>endwin\<close>, any calls other than \<open>initscr\<close>, \<open>cbreak\<close>
  and \<open>endwin\<close> leave the saved configuration as \<open>initscr\<close> captured it, and
  \<open>endwin\<close> then restores exactly the configuration found at the start. (\<open>getch\<close>
  sets the terminal raw for the time of its read and puts back what it found.)
\<close>

lemma mvaddch_changes_window_only:
  assumes "mvaddch y x ch s = Inr s'"
  shows "sys s' = sys s \<and> old_termios (ui s') = old_termios (ui s) \<and>
         old_console_mode (ui s') = old_console_mode (ui s) \<and>
         is_initialized (ui s') = is_initialized (ui s)"
proof (cases "current_window (ui s)")
  case None
  with assms show ?thesis by (simp add: mvaddch_def)
next
  case (Some w)
  show ?thesis
  proof (cases "buffer_store (buffer w) (nat y) (nat x) ch")
    case (Inl e)
    with assms Some show ?thesis by (simp add: mvaddch_def split: if_splits)
  next
    case (Inr b)
    with assms Some show ?thesis by (simp add: mvaddch_def split: if_splits) auto
  qed
qed

lemma mvprintw_changes_window_only:
  assumes "mvprintw y x formatted s = Inr s'"
  shows "sys s' = sys s \<and> old_termios (ui s') = old_termios (ui s) \<and>
         old_console_mode (ui s') = old_console_mode (ui s) \<and>
         is_initialized (ui s') = is_initialized (ui s)"
proof (cases "current_window (ui s)")
  case None
  with assms show ?thesis by (simp add: mvprintw_def)
next
  case (Some w)
  show ?thesis
  proof (cases "print_loop (buffer w) (nat (width w)) (nat y) (nat x) (formatted_str formatted) 0")
    case (Inl e)
    with assms Some show ?thesis by (simp add: mvprintw_def split: if_splits)
  next
    case (Inr b)
    with assms Some show ?thesis by (simp add: mvprintw_def split: if_splits) auto
  qed
qed

lemma getch_config:
  assumes "getch p ch0 s = Some (k, s')"
  shows "live_config p s' = live_config p s"
proof (cases p)
  case (Win32 c)
  with assms show ?thesis
    by (auto simp: getch_def live_config_def split: option.splits)
next
  case (Posix c)
  with assms show ?thesis
    by (cases "stdin_bytes (sys s)") (auto simp: getch_def live_config_def Let_def)
qed

lemma configs_eqI:
  "sys s' = sys s \<Longrightarrow> old_termios (ui s') = old_termios (ui s) \<Longrightarrow>
   old_console_mode (ui s') = old_console_mode (ui s) \<Longrightarrow>
   saved_config p s' = saved_config p s \<and> live_config p s' = live_config p s"
  by (simp add: saved_config_def live_config_def split: platform.split)

lemma perform_keeps_config:
  assumes "keeps_saved c" "perform p c s = Some s'"
  shows "saved_config p s' = saved_config p s \<and> live_config p s' = live_config p s \<and>
         is_initialized (ui s') = is_initialized (ui s)"
proof (cases c)
  case Initscr
  with assms(1) show ?thesis by (simp add: keeps_saved_def)
next
  case Endwin
  with assms(1) show ?thesis by (simp add: keeps_saved_def)
next
  case Cbreak
  with assms(1) show ?thesis by (simp add: keeps_saved_def)
next
  case Noecho
  with assms(2) have "s' = noecho s" by simp
  then show ?thesis using configs_eqI[of s' s p] by (simp add: noecho_def)
next
  case (Keypad enable)
  with assms(2) have "s' = s" by (simp add: keypad_def)
  then show ?thesis by simp
next
  case (Nodelay enable)
  with assms(2) have "s' = nodelay enable s" by simp
  then show ?thesis using configs_eqI[of s' s p] by (simp add: nodelay_def)
next
  case (Curs_set visibility)
  with assms(2) have "s' = curs_set p visibility s" by simp
  then show ?thesis
    by (cases p) (simp_all add: curs_set_def saved_config_def live_config_def Let_def)
next
  case (Mvaddch y x ch)
  with assms(2) have "mvaddch y x ch s = Inr s'"
    by (cases "mvaddch y x ch s") simp_all
  from mvaddch_changes_window_only[OF this] show ?thesis
    using configs_eqI[of s' s p] by simp
next
  case (Getch ch0)
  with assms(2) obtain k where g: "getch p ch0 s = Some (k, s')"
    by auto
  from getch_ui[OF g] getch_config[OF g] show ?thesis
    by (simp add: saved_config_def split: platform.split)
next
  case (Mvprintw y x formatted)
  with assms(2) have "mvprintw y x formatted s = Inr s'"
    by (cases "mvprintw y x formatted s") simp_all
  from mvprintw_changes_window_only[OF this] show ?thesis
    using configs_eqI[of s' s p] by simp
next
  case Refresh
  with assms(2) have "s' = refresh s" by simp
  then show ?thesis
    by (cases "current_window (ui s)") (simp_all add: refresh_def saved_config_def
        live_config_def split: platform.split)
qed

lemma run_keeps_config:
  "list_all keeps_saved cs \<Longrightarrow> run p cs s = Some s' \<Longrightarrow>
   saved_config p s' = saved_config p s \<and> live_config p s' = live_config p s \<and>
   is_initialized (ui s') = is_initialized (ui s)"
proof (induction cs arbitrary: s)
  case Nil
  then show ?case by simp
next
  case (Cons c cs)
  from Cons.prems(2) obtain s1 where 1: "perform p c s = Some s1" and 2: "run p cs s1 = Some s'"
    by (cases "perform p c s") simp_all
  from Cons.prems(1) have k: "keeps_saved c" and ks: "list_all keeps_saved cs"
    by simp_all
  from perform_keeps_config[OF k 1] Cons.IH[OF ks 2] show ?case
    by simp
qed

lemma initscr_saves:
  assumes "initscr p s = Inr s1"
  shows "saved_config p s1 = live_config p s" and "is_initialized (ui s1)"
proof -
  obtain h w where hw: "detect_screen_size p (sys s) = (h, w)"
    by (cases "detect_screen_size p (sys s)")
  from assms have s1: "s1 = setup_terminal p
       (s\<lparr>ui := (ui s)\<lparr>is_initialized := True, echo_mode := True, nodelay_mode := False,
             cursor_visible := True,
             current_window := Some \<lparr>height = h, width = w, start_y = 0, start_x = 0,
               buffer = replicate (nat h) (replicate (nat w) (CHR '' ''))\<rparr>\<rparr>\<rparr>)"
    unfolding initscr_result[OF hw] by simp
  show "saved_config p s1 = live_config p s"
    unfolding s1
    by (cases p) (simp_all add: setup_terminal_def saved_config_def live_config_def Let_def)
  show "is_initialized (ui s1)"
    unfolding s1 by (simp add: setup_terminal_ui)
qed

lemma TerminalUI_delete_endwin: "TerminalUI_delete p s = endwin p s"
  by (simp add: TerminalUI_delete_def endwin_def)

lemma endwin_restores_saved:
  "is_initialized (ui s) \<Longrightarrow> live_config p (endwin p s) = saved_config p s"
  by (cases p; cases "current_window (ui s)")
     (simp_all add: endwin_def restore_terminal_def live_config_def saved_config_def Let_def)

lemma restore_symmetry:
  assumes "initscr p s = Inr s1" "list_all keeps_saved cs" "run p cs s1 = Some s2"
  shows "live_config p (endwin p s2) = live_config p s"
  using initscr_saves[OF assms(1)] run_keeps_config[OF assms(2,3)]
  by (simp add: endwin_restores_saved)


end
